theory Spec2Isabelle
  imports Complex_Main
begin

section \<open>The hubs web API (index.js)\<close>

text \<open>
  index.js binds seven Express route handlers. Five of them call one method of the
  database module \<^verbatim>\<open>./data/hubs-model.js\<close> (the collaborator \<^verbatim>\<open>db\<close>), which
  returns a promise, and shape the HTTP response in a \<^verbatim>\<open>.then(...).catch(...)\<close> chain.
  The embedding keeps the source's structure: JavaScript values are a datatype, the
  response object \<^verbatim>\<open>res\<close> and the log of collaborator calls are explicit state, a promise
  is its eventual outcome, and \<^verbatim>\<open>then\<close> and \<^verbatim>\<open>catch\<close> are combinators on a chain.
\<close>

subsection \<open>JavaScript values\<close>

text \<open>
  The values that travel through the handlers: what the collaborator resolves or rejects
  with, the parsed request body, and the object literals the handlers build. A number is a
  rational (the finite doubles; \<^verbatim>\<open>-0\<close> is \<open>JNum 0\<close>), \<^verbatim>\<open>NaN\<close> or an infinity with its
  sign. An object is the list of its own enumerable fields in insertion order.
\<close>

datatype jsval =
    JUndefined
  | JNull
  | JBool bool
  | JNum rat
  | JNaN
  | JInfinity bool
  | JStr string
  | JArr "jsval list"
  | JObj "(string \<times> jsval) list"

text \<open>
  The test of \<^verbatim>\<open>if (hub)\<close>, \<^verbatim>\<open>if (updated)\<close> and \<^verbatim>\<open>if (deleted)\<close>: JavaScript's ToBoolean.
  The falsy values are \<^verbatim>\<open>undefined\<close>, \<^verbatim>\<open>null\<close>, \<^verbatim>\<open>false\<close>, \<^verbatim>\<open>0\<close>, \<^verbatim>\<open>NaN\<close> and the empty
  string; every array and every object is truthy, the empty ones too.
\<close>

fun truthy :: "jsval \<Rightarrow> bool" where
  "truthy JUndefined = False"
| "truthy JNull = False"
| "truthy (JBool b) = b"
| "truthy (JNum q) = (q \<noteq> 0)"
| "truthy JNaN = False"
| "truthy (JInfinity s) = True"
| "truthy (JStr s) = (s \<noteq> [])"
| "truthy (JArr xs) = True"
| "truthy (JObj fs) = True"

subsection \<open>Request, response and the collaborator\<close>

text \<open>
  \<^verbatim>\<open>req.params\<close> maps the names of the route's parameters to the strings Express
  extracted from the path; \<^verbatim>\<open>req.body\<close> is what \<^verbatim>\<open>express.json()\<close> left there.
\<close>

record req =
  params :: "string \<rightharpoonup> string"
  body :: jsval

text \<open>
  \<^verbatim>\<open>const {id} = req.params\<close>: the property's value, a string, or \<^verbatim>\<open>undefined\<close> when the
  object has no such property.
\<close>

definition param :: "req \<Rightarrow> string \<Rightarrow> jsval" where
  "param rq name = (case params rq name of None \<Rightarrow> JUndefined | Some s \<Rightarrow> JStr s)"

text \<open>What a response carries: JSON (\<^verbatim>\<open>res.json\<close>), text (\<^verbatim>\<open>res.send\<close>) or nothing (\<^verbatim>\<open>res.end\<close>).\<close>

datatype payload = Json jsval | Text string | Empty

text \<open>
  A promise is modelled by its eventual outcome; \<open>Pending\<close> is the promise that never
  settles.
\<close>

datatype promise = Resolved jsval | Rejected jsval | Pending

text \<open>The calls a handler makes on the collaborator, with their arguments.\<close>

datatype db_call =
    Find
  | FindById jsval
  | Add jsval
  | Update jsval jsval
  | Remove jsval

text \<open>
  The state a handler works on: the status code of \<^verbatim>\<open>res\<close> (Express starts it at 200),
  the responses sent on \<^verbatim>\<open>res\<close> so far, each with the status code it went out with, and the
  calls made on the collaborator so far.
\<close>

record world =
  statusCode :: nat
  sent :: "(nat \<times> payload) list"
  db_calls :: "db_call list"

definition fresh :: world where
  "fresh = \<lparr>statusCode = 200, sent = [], db_calls = []\<rparr>"

text \<open>
  The collaborator's behaviour: the promise each method returns for its arguments. Its
  implementation is not part of index.js, so the handlers are verified for every such
  behaviour.
\<close>

record hubs_model =
  find_js :: promise
  findById :: "jsval \<Rightarrow> promise"
  add :: "jsval \<Rightarrow> promise"
  update :: "jsval \<Rightarrow> jsval \<Rightarrow> promise"
  remove :: "jsval \<Rightarrow> promise"

text \<open>\<^verbatim>\<open>db.find()\<close>, \<^verbatim>\<open>db.findById(id)\<close>, ...: the call is logged and the promise returned.\<close>

definition db_find :: "hubs_model \<Rightarrow> world \<Rightarrow> promise \<times> world" where
  "db_find d w = (find_js d, w\<lparr>db_calls := db_calls w @ [Find]\<rparr>)"

definition db_findById :: "hubs_model \<Rightarrow> jsval \<Rightarrow> world \<Rightarrow> promise \<times> world" where
  "db_findById d i w = (findById d i, w\<lparr>db_calls := db_calls w @ [FindById i]\<rparr>)"

definition db_add :: "hubs_model \<Rightarrow> jsval \<Rightarrow> world \<Rightarrow> promise \<times> world" where
  "db_add d h w = (add d h, w\<lparr>db_calls := db_calls w @ [Add h]\<rparr>)"

definition db_update :: "hubs_model \<Rightarrow> jsval \<Rightarrow> jsval \<Rightarrow> world \<Rightarrow> promise \<times> world" where
  "db_update d i h w = (update d i h, w\<lparr>db_calls := db_calls w @ [Update i h]\<rparr>)"

definition db_remove :: "hubs_model \<Rightarrow> jsval \<Rightarrow> world \<Rightarrow> promise \<times> world" where
  "db_remove d i w = (remove d i, w\<lparr>db_calls := db_calls w @ [Remove i]\<rparr>)"

subsection \<open>The methods of res\<close>

text \<open>\<^verbatim>\<open>res.status(code)\<close> sets the status code and returns \<^verbatim>\<open>res\<close> for chaining.\<close>

definition status :: "nat \<Rightarrow> world \<Rightarrow> world" where
  "status code w = w\<lparr>statusCode := code\<rparr>"

text \<open>
  \<^verbatim>\<open>res.json(v)\<close>, \<^verbatim>\<open>res.send(s)\<close> and \<^verbatim>\<open>res.end()\<close> each send one response, with the
  status code \<^verbatim>\<open>res\<close> has at that moment.
\<close>

definition json :: "jsval \<Rightarrow> world \<Rightarrow> world" where
  "json v w = w\<lparr>sent := sent w @ [(statusCode w, Json v)]\<rparr>"

definition send :: "string \<Rightarrow> world \<Rightarrow> world" where
  "send s w = w\<lparr>sent := sent w @ [(statusCode w, Text s)]\<rparr>"

definition end_js :: "world \<Rightarrow> world" where
  "end_js w = w\<lparr>sent := sent w @ [(statusCode w, Empty)]\<rparr>"

subsection \<open>Promise chains\<close>

text \<open>
  \<^verbatim>\<open>p.then(f)\<close> runs \<open>f\<close> on the value \<open>p\<close> resolves with and passes a rejection on;
  \<^verbatim>\<open>p.catch(g)\<close> runs \<open>g\<close> on the error \<open>p\<close> rejects with and passes a value on. The
  callbacks of index.js are arrow functions with a block body and no \<^verbatim>\<open>return\<close>, so the
  promise after a callback has run resolves with \<^verbatim>\<open>undefined\<close>. Nothing runs while the
  promise is pending. The callbacks only call \<^verbatim>\<open>status\<close>, \<^verbatim>\<open>json\<close> and \<^verbatim>\<open>end\<close> on a
  response that has not been sent, with a value of \<open>jsval\<close>, which serialises; so no
  callback throws, and \<open>then_js\<close> needs no branch that turns a throw into a rejection.
\<close>

fun then_js :: "(jsval \<Rightarrow> world \<Rightarrow> world) \<Rightarrow> promise \<times> world \<Rightarrow> promise \<times> world" where
  "then_js f (Resolved v, w) = (Resolved JUndefined, f v w)"
| "then_js f (Rejected e, w) = (Rejected e, w)"
| "then_js f (Pending, w) = (Pending, w)"

fun catch_js :: "(jsval \<Rightarrow> world \<Rightarrow> world) \<Rightarrow> promise \<times> world \<Rightarrow> promise \<times> world" where
  "catch_js g (Resolved v, w) = (Resolved v, w)"
| "catch_js g (Rejected e, w) = (Resolved JUndefined, g e w)"
| "catch_js g (Pending, w) = (Pending, w)"

subsection \<open>The route handlers\<close>

text \<open>\<^verbatim>\<open>server.get('/', ...)\<close>, line 15.\<close>

definition get_root :: "req \<Rightarrow> world \<Rightarrow> world" where
  "get_root rq res = send ''hello world from express!!'' res"

text \<open>
  \<^verbatim>\<open>server.get('/now', ...)\<close>, line 23. \<open>now\<close> is the string
  \<^verbatim>\<open>new Date().toISOString()\<close> evaluates to when the handler runs.
\<close>

definition get_now :: "string \<Rightarrow> req \<Rightarrow> world \<Rightarrow> world" where
  "get_now now rq res = send now res"

text \<open>\<^verbatim>\<open>server.get('/hubs', ...)\<close>, line 34.\<close>

definition get_hubs :: "hubs_model \<Rightarrow> req \<Rightarrow> world \<Rightarrow> world" where
  "get_hubs d rq res =
     snd (catch_js (\<lambda>err. json (JObj [(''sucess'', JBool False), (''err'', err)]) \<circ> status 500)
       (then_js (\<lambda>hubs. json hubs \<circ> status 200)
         (db_find d res)))"

text \<open>\<^verbatim>\<open>server.get('/hubs/:id', ...)\<close>, line 57.\<close>

definition get_hubs_id :: "hubs_model \<Rightarrow> req \<Rightarrow> world \<Rightarrow> world" where
  "get_hubs_id d rq res =
     (let id = param rq ''id'' in
      snd (catch_js (\<lambda>err. json (JObj [(''success'', JBool False), (''err'', err)]) \<circ> status 500)
        (then_js (\<lambda>hub.
            if truthy hub then json hub \<circ> status 200
            else json (JObj [(''success'', JBool False),
                   (''message'', JStr ''I cannot find the hub you are looking for.'')]) \<circ> status 404)
          (db_findById d id res))))"

text \<open>\<^verbatim>\<open>server.post('/hubs', ...)\<close>, line 97.\<close>

definition post_hubs :: "hubs_model \<Rightarrow> req \<Rightarrow> world \<Rightarrow> world" where
  "post_hubs d rq res =
     (let hubInfo = body rq in
      snd (catch_js (\<lambda>err. json (JObj [(''sucess'', JBool False), (''err'', err)]) \<circ> status 500)
        (then_js (\<lambda>hub. json (JObj [(''sucess'', JBool True), (''hub'', hub)]) \<circ> status 201)
          (db_add d hubInfo res))))"

text \<open>\<^verbatim>\<open>server.put('/hubs/:id', ...)\<close>, line 123.\<close>

definition put_hubs_id :: "hubs_model \<Rightarrow> req \<Rightarrow> world \<Rightarrow> world" where
  "put_hubs_id d rq res =
     (let id = param rq ''id''; hubInfo = body rq in
      snd (catch_js (\<lambda>err. json (JObj [(''success'', JBool False), (''err'', err)]) \<circ> status 500)
        (then_js (\<lambda>updated.
            if truthy updated then json (JObj [(''success'', JBool True), (''updated'', updated)]) \<circ> status 200
            else json (JObj [(''success'', JBool False),
                   (''message'', JStr ''I cannot find the hub you are looking for'')]) \<circ> status 404)
          (db_update d id hubInfo res))))"

text \<open>\<^verbatim>\<open>server.delete('/hubs/:id', ...)\<close>, line 150.\<close>

definition delete_hubs_id :: "hubs_model \<Rightarrow> req \<Rightarrow> world \<Rightarrow> world" where
  "delete_hubs_id d rq res =
     (let id = param rq ''id'' in
      snd (catch_js (\<lambda>err. json (JObj [(''success'', JBool False), (''err'', err)]) \<circ> status 500)
        (then_js (\<lambda>deleted.
            if truthy deleted then end_js \<circ> status 204
            else json (JObj [(''success'', JBool False),
                   (''message'', JStr ''I cannot find the hub you are looking for'')]) \<circ> status 404)
          (db_remove d id res))))"

subsection \<open>Sample requests and collaborators\<close>

text \<open>A collaborator whose every method returns the promise \<open>p\<close>, and a request for hub 42.\<close>

definition always :: "promise \<Rightarrow> hubs_model" where
  "always p = \<lparr>find_js = p, findById = (\<lambda>i. p), add = (\<lambda>h. p), update = (\<lambda>i h. p), remove = (\<lambda>i. p)\<rparr>"

definition hub42 :: jsval where
  "hub42 = JObj [(''id'', JNum 42), (''name'', JStr ''answers'')]"

definition req42 :: req where
  "req42 = \<lparr>params = [''id'' \<mapsto> ''42''], body = JObj [(''name'', JStr ''answers'')]\<rparr>"

definition boom :: jsval where
  "boom = JObj [(''code'', JStr ''SQLITE_ERROR'')]"

text \<open>A request with no route parameter, as \<^verbatim>\<open>/hubs\<close> gets it.\<close>

definition req_hubs :: req where
  "req_hubs = \<lparr>params = Map.empty, body = JObj [(''name'', JStr ''answers'')]\<rparr>"

section \<open>Properties\<close>

subsection \<open>What one run of a handler leaves behind\<close>

text \<open>
  Each handler makes one call on the collaborator and then acts on the promise's outcome.
  These lemmas compute the whole final state, branch by branch; the properties below
  read their parts off them.
\<close>

lemma get_hubs_run:
  "get_hubs d rq fresh =
     (case find_js d of
        Resolved hubs \<Rightarrow>
          \<lparr>statusCode = 200, sent = [(200, Json hubs)], db_calls = [Find]\<rparr>
      | Rejected err \<Rightarrow>
          \<lparr>statusCode = 500,
           sent = [(500, Json (JObj [(''sucess'', JBool False), (''err'', err)]))],
           db_calls = [Find]\<rparr>
      | Pending \<Rightarrow> \<lparr>statusCode = 200, sent = [], db_calls = [Find]\<rparr>)"
  by (simp add: get_hubs_def db_find_def fresh_def status_def json_def split: promise.split)

lemma get_hubs_id_run:
  "get_hubs_id d rq fresh =
     (case findById d (param rq ''id'') of
        Resolved hub \<Rightarrow>
          if truthy hub
          then \<lparr>statusCode = 200, sent = [(200, Json hub)],
                db_calls = [FindById (param rq ''id'')]\<rparr>
          else \<lparr>statusCode = 404,
                sent = [(404, Json (JObj [(''success'', JBool False),
                  (''message'', JStr ''I cannot find the hub you are looking for.'')]))],
                db_calls = [FindById (param rq ''id'')]\<rparr>
      | Rejected err \<Rightarrow>
          \<lparr>statusCode = 500,
           sent = [(500, Json (JObj [(''success'', JBool False), (''err'', err)]))],
           db_calls = [FindById (param rq ''id'')]\<rparr>
      | Pending \<Rightarrow>
          \<lparr>statusCode = 200, sent = [], db_calls = [FindById (param rq ''id'')]\<rparr>)"
  by (simp add: get_hubs_id_def db_findById_def fresh_def status_def json_def Let_def
      split: promise.split)

lemma post_hubs_run:
  "post_hubs d rq fresh =
     (case add d (body rq) of
        Resolved hub \<Rightarrow>
          \<lparr>statusCode = 201,
           sent = [(201, Json (JObj [(''sucess'', JBool True), (''hub'', hub)]))],
           db_calls = [Add (body rq)]\<rparr>
      | Rejected err \<Rightarrow>
          \<lparr>statusCode = 500,
           sent = [(500, Json (JObj [(''sucess'', JBool False), (''err'', err)]))],
           db_calls = [Add (body rq)]\<rparr>
      | Pending \<Rightarrow> \<lparr>statusCode = 200, sent = [], db_calls = [Add (body rq)]\<rparr>)"
  by (simp add: post_hubs_def db_add_def fresh_def status_def json_def Let_def
      split: promise.split)

lemma put_hubs_id_run:
  "put_hubs_id d rq fresh =
     (case update d (param rq ''id'') (body rq) of
        Resolved updated \<Rightarrow>
          if truthy updated
          then \<lparr>statusCode = 200,
                sent = [(200, Json (JObj [(''success'', JBool True), (''updated'', updated)]))],
                db_calls = [Update (param rq ''id'') (body rq)]\<rparr>
          else \<lparr>statusCode = 404,
                sent = [(404, Json (JObj [(''success'', JBool False),
                  (''message'', JStr ''I cannot find the hub you are looking for'')]))],
                db_calls = [Update (param rq ''id'') (body rq)]\<rparr>
      | Rejected err \<Rightarrow>
          \<lparr>statusCode = 500,
           sent = [(500, Json (JObj [(''success'', JBool False), (''err'', err)]))],
           db_calls = [Update (param rq ''id'') (body rq)]\<rparr>
      | Pending \<Rightarrow>
          \<lparr>statusCode = 200, sent = [],
           db_calls = [Update (param rq ''id'') (body rq)]\<rparr>)"
  by (simp add: put_hubs_id_def db_update_def fresh_def status_def json_def Let_def
      split: promise.split)

lemma delete_hubs_id_run:
  "delete_hubs_id d rq fresh =
     (case remove d (param rq ''id'') of
        Resolved deleted \<Rightarrow>
          if truthy deleted
          then \<lparr>statusCode = 204, sent = [(204, Empty)],
                db_calls = [Remove (param rq ''id'')]\<rparr>
          else \<lparr>statusCode = 404,
                sent = [(404, Json (JObj [(''success'', JBool False),
                  (''message'', JStr ''I cannot find the hub you are looking for'')]))],
                db_calls = [Remove (param rq ''id'')]\<rparr>
      | Rejected err \<Rightarrow>
          \<lparr>statusCode = 500,
           sent = [(500, Json (JObj [(''success'', JBool False), (''err'', err)]))],
           db_calls = [Remove (param rq ''id'')]\<rparr>
      | Pending \<Rightarrow>
          \<lparr>statusCode = 200, sent = [], db_calls = [Remove (param rq ''id'')]\<rparr>)"
  by (simp add: delete_hubs_id_def db_remove_def fresh_def status_def json_def end_js_def
      Let_def split: promise.split)

text \<open>The sample collaborator answers every call with its promise.\<close>

lemma always_simps:
  "find_js (always p) = p"
  "findById (always p) i = p"
  "add (always p) h = p"
  "update (always p) i h = p"
  "remove (always p) i = p"
  by (simp_all add: always_def)

lemma param_req42: "param req42 ''id'' = JStr ''42''"
  by (simp add: param_def req42_def)

lemma truthy_hub42: "truthy hub42"
  by (simp add: hub42_def)

subsection \<open>GET /hubs/:id\<close>

text \<open>
  Claim C1. For \<^verbatim>\<open>GET /hubs/:id\<close>: when \<^verbatim>\<open>findById(id)\<close> resolves with a truthy value
  \<open>h\<close>, the one response has status 200 and the JSON body \<open>h\<close> itself; when it resolves
  with a falsy value, the response has status 404 and the body
  \<^verbatim>\<open>{success:false, message:'I cannot find the hub you are looking for.'}\<close>, the message
  ending in a period; when it rejects with \<open>e\<close>, the response has status 500 and the body
  \<^verbatim>\<open>{success:false, err:e}\<close>.
\<close>

theorem get_hubs_id_responses:
  "(findById d (param rq ''id'') = Resolved h \<and> truthy h \<longrightarrow>
      sent (get_hubs_id d rq fresh) = [(200, Json h)]) \<and>
   (findById d (param rq ''id'') = Resolved h \<and> \<not> truthy h \<longrightarrow>
      sent (get_hubs_id d rq fresh) =
        [(404, Json (JObj [(''success'', JBool False),
           (''message'', JStr ''I cannot find the hub you are looking for.'')]))]) \<and>
   (findById d (param rq ''id'') = Rejected e \<longrightarrow>
      sent (get_hubs_id d rq fresh) =
        [(500, Json (JObj [(''success'', JBool False), (''err'', e)]))])"
  by (simp add: get_hubs_id_run)

theorem get_hubs_id_responses_witness:
  "sent (get_hubs_id (always (Resolved hub42)) req42 fresh) = [(200, Json hub42)] \<and>
   sent (get_hubs_id (always (Resolved JUndefined)) req42 fresh) =
     [(404, Json (JObj [(''success'', JBool False),
        (''message'', JStr ''I cannot find the hub you are looking for.'')]))] \<and>
   sent (get_hubs_id (always (Rejected boom)) req42 fresh) =
     [(500, Json (JObj [(''success'', JBool False), (''err'', boom)]))]"
  using get_hubs_id_responses [where d = "always (Resolved hub42)" and rq = req42 and h = hub42]
    get_hubs_id_responses [where d = "always (Resolved JUndefined)" and rq = req42 and h = JUndefined]
    get_hubs_id_responses [where d = "always (Rejected boom)" and rq = req42 and e = boom]
  by (simp add: always_simps truthy_hub42)

subsection \<open>PUT /hubs/:id\<close>

text \<open>
  Claim C2. For \<^verbatim>\<open>PUT /hubs/:id\<close> with parsed body \<open>b\<close>: the handler calls
  \<^verbatim>\<open>update(id, b)\<close>, and nothing else on the collaborator. When the call resolves with a
  truthy value \<open>u\<close>, the response has status 200 and the body \<^verbatim>\<open>{success:true, updated:u}\<close>;
  when it resolves with a falsy value, the response has status 404 and the body
  \<^verbatim>\<open>{success:false, message:'I cannot find the hub you are looking for'}\<close>, with no period
  at the end; when it rejects with \<open>e\<close>, the response has status 500 and the body
  \<^verbatim>\<open>{success:false, err:e}\<close>.
\<close>

theorem put_hubs_id_responses:
  "db_calls (put_hubs_id d rq fresh) = [Update (param rq ''id'') (body rq)] \<and>
   (update d (param rq ''id'') (body rq) = Resolved u \<and> truthy u \<longrightarrow>
      sent (put_hubs_id d rq fresh) =
        [(200, Json (JObj [(''success'', JBool True), (''updated'', u)]))]) \<and>
   (update d (param rq ''id'') (body rq) = Resolved u \<and> \<not> truthy u \<longrightarrow>
      sent (put_hubs_id d rq fresh) =
        [(404, Json (JObj [(''success'', JBool False),
           (''message'', JStr ''I cannot find the hub you are looking for'')]))]) \<and>
   (update d (param rq ''id'') (body rq) = Rejected e \<longrightarrow>
      sent (put_hubs_id d rq fresh) =
        [(500, Json (JObj [(''success'', JBool False), (''err'', e)]))])"
  by (simp add: put_hubs_id_run split: promise.split)

theorem put_hubs_id_responses_witness:
  "db_calls (put_hubs_id (always (Resolved hub42)) req42 fresh) =
     [Update (JStr ''42'') (body req42)] \<and>
   sent (put_hubs_id (always (Resolved hub42)) req42 fresh) =
     [(200, Json (JObj [(''success'', JBool True), (''updated'', hub42)]))] \<and>
   sent (put_hubs_id (always (Resolved (JNum 0))) req42 fresh) =
     [(404, Json (JObj [(''success'', JBool False),
        (''message'', JStr ''I cannot find the hub you are looking for'')]))] \<and>
   sent (put_hubs_id (always (Rejected boom)) req42 fresh) =
     [(500, Json (JObj [(''success'', JBool False), (''err'', boom)]))]"
  using put_hubs_id_responses [where d = "always (Resolved hub42)" and rq = req42 and u = hub42]
    put_hubs_id_responses [where d = "always (Resolved (JNum 0))" and rq = req42 and u = "JNum 0"]
    put_hubs_id_responses [where d = "always (Rejected boom)" and rq = req42 and e = boom]
  by (simp add: always_simps truthy_hub42 param_req42)

subsection \<open>DELETE /hubs/:id\<close>

text \<open>
  Claim C3. For \<^verbatim>\<open>DELETE /hubs/:id\<close>: the handler calls \<^verbatim>\<open>remove(id)\<close>, and nothing else
  on the collaborator. When the call resolves with a truthy value, the response has status
  204 and an empty body; when it resolves with a falsy value, the response has status 404
  and the body \<^verbatim>\<open>{success:false, message:'I cannot find the hub you are looking for'}\<close>;
  when it rejects with \<open>e\<close>, the response has status 500 and the body
  \<^verbatim>\<open>{success:false, err:e}\<close>.
\<close>

theorem delete_hubs_id_responses:
  "db_calls (delete_hubs_id d rq fresh) = [Remove (param rq ''id'')] \<and>
   (remove d (param rq ''id'') = Resolved x \<and> truthy x \<longrightarrow>
      sent (delete_hubs_id d rq fresh) = [(204, Empty)]) \<and>
   (remove d (param rq ''id'') = Resolved x \<and> \<not> truthy x \<longrightarrow>
      sent (delete_hubs_id d rq fresh) =
        [(404, Json (JObj [(''success'', JBool False),
           (''message'', JStr ''I cannot find the hub you are looking for'')]))]) \<and>
   (remove d (param rq ''id'') = Rejected e \<longrightarrow>
      sent (delete_hubs_id d rq fresh) =
        [(500, Json (JObj [(''success'', JBool False), (''err'', e)]))])"
  by (simp add: delete_hubs_id_run split: promise.split)

theorem delete_hubs_id_responses_witness:
  "db_calls (delete_hubs_id (always (Resolved (JBool True))) req42 fresh) =
     [Remove (JStr ''42'')] \<and>
   sent (delete_hubs_id (always (Resolved (JBool True))) req42 fresh) = [(204, Empty)] \<and>
   sent (delete_hubs_id (always (Resolved (JBool False))) req42 fresh) =
     [(404, Json (JObj [(''success'', JBool False),
        (''message'', JStr ''I cannot find the hub you are looking for'')]))] \<and>
   sent (delete_hubs_id (always (Rejected boom)) req42 fresh) =
     [(500, Json (JObj [(''success'', JBool False), (''err'', boom)]))]"
  using delete_hubs_id_responses
      [where d = "always (Resolved (JBool True))" and rq = req42 and x = "JBool True"]
    delete_hubs_id_responses
      [where d = "always (Resolved (JBool False))" and rq = req42 and x = "JBool False"]
    delete_hubs_id_responses [where d = "always (Rejected boom)" and rq = req42 and e = boom]
  by (simp add: always_simps param_req42)

subsection \<open>POST /hubs\<close>

text \<open>
  Claim C4 has the envelopes of \<^verbatim>\<open>POST /hubs\<close> carry a field spelled \<^verbatim>\<open>success\<close>.
  The handler spells it \<^verbatim>\<open>sucess\<close> (lines 102 and 105), while the handlers of
  \<^verbatim>\<open>/hubs/:id\<close> spell it \<^verbatim>\<open>success\<close>. For the body \<^verbatim>\<open>{name:'answers'}\<close> and a collaborator
  whose \<^verbatim>\<open>add\<close> resolves with hub 42, the handler calls \<^verbatim>\<open>add\<close> on that body and
  answers 201 with \<^verbatim>\<open>{sucess:true, hub}\<close>, which is not the claimed body.
\<close>

theorem post_hubs_flag_is_misspelled:
  "db_calls (post_hubs (always (Resolved hub42)) req_hubs fresh) = [Add (body req_hubs)] \<and>
   sent (post_hubs (always (Resolved hub42)) req_hubs fresh) =
     [(201, Json (JObj [(''sucess'', JBool True), (''hub'', hub42)]))] \<and>
   sent (post_hubs (always (Resolved hub42)) req_hubs fresh) \<noteq>
     [(201, Json (JObj [(''success'', JBool True), (''hub'', hub42)]))]"
  by (simp add: post_hubs_run always_simps)

subsection \<open>GET /hubs\<close>

text \<open>
  Claim C5 has the 500 envelope of \<^verbatim>\<open>GET /hubs\<close> carry a field spelled \<^verbatim>\<open>success\<close>.
  The handler spells it \<^verbatim>\<open>sucess\<close> (line 40). For a collaborator whose \<^verbatim>\<open>find\<close> rejects
  with an error, the handler calls \<^verbatim>\<open>find\<close> and answers 500 with \<^verbatim>\<open>{sucess:false, err}\<close>,
  which is not the claimed body.
\<close>

theorem get_hubs_flag_is_misspelled:
  "db_calls (get_hubs (always (Rejected boom)) req_hubs fresh) = [Find] \<and>
   sent (get_hubs (always (Rejected boom)) req_hubs fresh) =
     [(500, Json (JObj [(''sucess'', JBool False), (''err'', boom)]))] \<and>
   sent (get_hubs (always (Rejected boom)) req_hubs fresh) \<noteq>
     [(500, Json (JObj [(''success'', JBool False), (''err'', boom)]))]"
  by (simp add: get_hubs_run always_simps)

text \<open>
  Claim C9. For \<^verbatim>\<open>GET /hubs\<close>: whenever \<^verbatim>\<open>find()\<close> resolves, with a truthy value or a
  falsy one, the response has status 200 and the resolved value as its body. The handler
  has no branch on the value, so nothing is mapped to 404.
\<close>

theorem get_hubs_has_no_not_found:
  "find_js d = Resolved hubs \<Longrightarrow> sent (get_hubs d rq fresh) = [(200, Json hubs)]"
  by (simp add: get_hubs_run)

theorem get_hubs_has_no_not_found_witness:
  "sent (get_hubs (always (Resolved (JArr []))) req_hubs fresh) = [(200, Json (JArr []))] \<and>
   \<not> truthy JNull \<and>
   sent (get_hubs (always (Resolved JNull)) req_hubs fresh) = [(200, Json JNull)]"
  using get_hubs_has_no_not_found [where d = "always (Resolved (JArr []))" and rq = req_hubs]
    get_hubs_has_no_not_found [where d = "always (Resolved JNull)" and rq = req_hubs]
  by (simp add: always_simps)

subsection \<open>All five hub routes\<close>

text \<open>
  Claim C6. On each of the five hub routes, when the collaborator method the handler
  calls rejects with \<open>e\<close>, the response has status 500 and a JSON body with the field
  \<^verbatim>\<open>err\<close> bound to \<open>e\<close> and a flag bound to \<^verbatim>\<open>false\<close>. The flag's spelling is fixed per
  route, whatever the request and the error: \<^verbatim>\<open>sucess\<close> on \<^verbatim>\<open>GET /hubs\<close> and
  \<^verbatim>\<open>POST /hubs\<close>, \<^verbatim>\<open>success\<close> on the three routes of \<^verbatim>\<open>/hubs/:id\<close>.
\<close>

theorem rejection_answers_500:
  "(find_js d = Rejected e \<longrightarrow>
      sent (get_hubs d rq fresh) =
        [(500, Json (JObj [(''sucess'', JBool False), (''err'', e)]))]) \<and>
   (findById d (param rq ''id'') = Rejected e \<longrightarrow>
      sent (get_hubs_id d rq fresh) =
        [(500, Json (JObj [(''success'', JBool False), (''err'', e)]))]) \<and>
   (add d (body rq) = Rejected e \<longrightarrow>
      sent (post_hubs d rq fresh) =
        [(500, Json (JObj [(''sucess'', JBool False), (''err'', e)]))]) \<and>
   (update d (param rq ''id'') (body rq) = Rejected e \<longrightarrow>
      sent (put_hubs_id d rq fresh) =
        [(500, Json (JObj [(''success'', JBool False), (''err'', e)]))]) \<and>
   (remove d (param rq ''id'') = Rejected e \<longrightarrow>
      sent (delete_hubs_id d rq fresh) =
        [(500, Json (JObj [(''success'', JBool False), (''err'', e)]))])"
  by (simp add: get_hubs_run get_hubs_id_run post_hubs_run put_hubs_id_run delete_hubs_id_run)

theorem rejection_answers_500_witness:
  "sent (get_hubs (always (Rejected boom)) req42 fresh) =
     [(500, Json (JObj [(''sucess'', JBool False), (''err'', boom)]))] \<and>
   sent (get_hubs_id (always (Rejected boom)) req42 fresh) =
     [(500, Json (JObj [(''success'', JBool False), (''err'', boom)]))] \<and>
   sent (post_hubs (always (Rejected boom)) req42 fresh) =
     [(500, Json (JObj [(''sucess'', JBool False), (''err'', boom)]))] \<and>
   sent (put_hubs_id (always (Rejected boom)) req42 fresh) =
     [(500, Json (JObj [(''success'', JBool False), (''err'', boom)]))] \<and>
   sent (delete_hubs_id (always (Rejected boom)) req42 fresh) =
     [(500, Json (JObj [(''success'', JBool False), (''err'', boom)]))]"
  using rejection_answers_500 [where d = "always (Rejected boom)" and rq = req42 and e = boom]
  by (simp add: always_simps)

text \<open>
  Claim C7. On each of the five hub routes, when the promise of the collaborator call
  settles (it resolves or rejects), the handler sends exactly one response: not zero and
  not two, whether the value is truthy or falsy or the promise rejected.
\<close>

theorem settled_call_gets_one_response:
  "(find_js d \<noteq> Pending \<longrightarrow> length (sent (get_hubs d rq fresh)) = 1) \<and>
   (findById d (param rq ''id'') \<noteq> Pending \<longrightarrow> length (sent (get_hubs_id d rq fresh)) = 1) \<and>
   (add d (body rq) \<noteq> Pending \<longrightarrow> length (sent (post_hubs d rq fresh)) = 1) \<and>
   (update d (param rq ''id'') (body rq) \<noteq> Pending \<longrightarrow>
      length (sent (put_hubs_id d rq fresh)) = 1) \<and>
   (remove d (param rq ''id'') \<noteq> Pending \<longrightarrow>
      length (sent (delete_hubs_id d rq fresh)) = 1)"
  by (simp add: get_hubs_run get_hubs_id_run post_hubs_run put_hubs_id_run delete_hubs_id_run
      split: promise.split)

theorem settled_call_gets_one_response_witness:
  "list_all (\<lambda>p.
      length (sent (get_hubs (always p) req42 fresh)) = 1 \<and>
      length (sent (get_hubs_id (always p) req42 fresh)) = 1 \<and>
      length (sent (post_hubs (always p) req42 fresh)) = 1 \<and>
      length (sent (put_hubs_id (always p) req42 fresh)) = 1 \<and>
      length (sent (delete_hubs_id (always p) req42 fresh)) = 1)
     [Resolved hub42, Resolved JNull, Rejected boom]"
  using settled_call_gets_one_response [where d = "always (Resolved hub42)" and rq = req42]
    settled_call_gets_one_response [where d = "always (Resolved JNull)" and rq = req42]
    settled_call_gets_one_response [where d = "always (Rejected boom)" and rq = req42]
  by (simp add: always_simps)

text \<open>
  The condition is needed: while the promise is pending no callback runs, and the request
  gets no response at all (the handlers set no timeout).
\<close>

lemma pending_call_gets_no_response:
  "find_js d = Pending \<Longrightarrow> sent (get_hubs d rq fresh) = []"
  "findById d (param rq ''id'') = Pending \<Longrightarrow> sent (get_hubs_id d rq fresh) = []"
  "add d (body rq) = Pending \<Longrightarrow> sent (post_hubs d rq fresh) = []"
  "update d (param rq ''id'') (body rq) = Pending \<Longrightarrow> sent (put_hubs_id d rq fresh) = []"
  "remove d (param rq ''id'') = Pending \<Longrightarrow> sent (delete_hubs_id d rq fresh) = []"
  by (simp_all add: get_hubs_run get_hubs_id_run post_hubs_run put_hubs_id_run
      delete_hubs_id_run)

subsection \<open>The id of the path\<close>

text \<open>
  Claim C10. On the three routes of \<^verbatim>\<open>/hubs/:id\<close>, the string \<open>s\<close> that
  \<^verbatim>\<open>req.params.id\<close> holds is the argument of the one collaborator call, as that very
  string: \<^verbatim>\<open>findById(s)\<close>, \<^verbatim>\<open>update(s, body)\<close>, \<^verbatim>\<open>remove(s)\<close>. The handler neither parses
  it, nor turns it into a number, nor checks it, whatever the collaborator then answers.
\<close>

theorem id_is_forwarded_verbatim:
  "params rq ''id'' = Some s \<Longrightarrow>
     db_calls (get_hubs_id d rq fresh) = [FindById (JStr s)] \<and>
     db_calls (put_hubs_id d rq fresh) = [Update (JStr s) (body rq)] \<and>
     db_calls (delete_hubs_id d rq fresh) = [Remove (JStr s)]"
  by (simp add: get_hubs_id_run put_hubs_id_run delete_hubs_id_run param_def
      split: promise.split)

theorem id_is_forwarded_verbatim_witness:
  "params req42 ''id'' = Some ''42'' \<and>
   db_calls (get_hubs_id (always Pending) req42 fresh) = [FindById (JStr ''42'')] \<and>
   db_calls (put_hubs_id (always Pending) req42 fresh) = [Update (JStr ''42'') (body req42)] \<and>
   db_calls (delete_hubs_id (always Pending) req42 fresh) = [Remove (JStr ''42'')]"
  using id_is_forwarded_verbatim [where rq = req42 and s = "''42''" and d = "always Pending"]
  by (simp add: req42_def)

end
